theory Spec2Isabelle
  imports Complex_Main
begin

section \<open>Processes (processes.py)\<close>

text \<open>
  Python floats are modelled as \<open>real\<close>: the code below only stores, compares and
  forwards them. Python ints are \<open>int\<close>; counters that start at 0 and are only
  incremented or reset to 0 are \<open>nat\<close>. A process that reads another process
  (a rate, a probability) receives the value of that \<open>get()\<close> as an argument of its
  step, and every random draw of numpy is an argument as well: the step functions are
  the deterministic rest of the source's \<open>step\<close> methods.
\<close>

datatype error = IndexError | KeyError | ValueError

subsection \<open>BirthDeathProcess\<close>

text \<open>
  \<open>numpy.random.poisson(lam)\<close> raises ValueError for a negative rate (\<open>lam < 0\<close>) and
  for a rate above numpy's bound (\<open>lam value too large\<close>), and returns a non-negative
  integer otherwise; \<open>k\<close> is the outcome of the draw. The bound is numpy's
  \<open>np.iinfo('int64').max - np.sqrt(np.iinfo('int64').max) * 10\<close>, the float
  \<open>9.223372006484771e18\<close>.
\<close>

definition poisson_lam_max :: real where
  "poisson_lam_max = 9223372006484770816"

definition poisson :: "real \<Rightarrow> nat \<Rightarrow> error + int" where
  "poisson lam k =
     (if lam < 0 \<or> lam > poisson_lam_max then Inl ValueError else Inr (int k))"

text \<open>
  The fields \<open>birth_rate\<close> and \<open>death_rate\<close> are references to other processes,
  stepped by the environment; what they return during one step is in \<open>bd_draw\<close>.
\<close>

record BirthDeathProcess =
  bd_value :: int
  bd_limit :: int

record bd_draw =
  birth_rate_get :: real
  birth_outcome :: nat
  death_rate_get :: real
  death_outcome :: nat

definition BirthDeathProcess_init :: "int \<Rightarrow> int \<Rightarrow> BirthDeathProcess" where
  "BirthDeathProcess_init init limit = \<lparr>bd_value = init, bd_limit = limit\<rparr>"

definition bd_step :: "bd_draw \<Rightarrow> BirthDeathProcess \<Rightarrow> error + BirthDeathProcess" where
  "bd_step d s =
     (case poisson (birth_rate_get d) (birth_outcome d) of
        Inl e \<Rightarrow> Inl e
      | Inr n_birth \<Rightarrow>
          (case poisson (death_rate_get d) (death_outcome d) of
             Inl e \<Rightarrow> Inl e
           | Inr n_death \<Rightarrow>
               (let v1 = bd_value s + n_birth;
                    v2 = (if bd_limit s > 0 then min (bd_limit s) v1 else v1)
                in Inr (s\<lparr>bd_value := max 0 (v2 - n_death)\<rparr>))))"

definition bd_get :: "BirthDeathProcess \<Rightarrow> int" where
  "bd_get s = bd_value s"

text \<open>One step per draw, in order; an exception ends the run (no caller catches it).\<close>

fun bd_steps :: "bd_draw list \<Rightarrow> BirthDeathProcess \<Rightarrow> error + BirthDeathProcess" where
  "bd_steps [] s = Inr s"
| "bd_steps (d # ds) s = (case bd_step d s of Inl e \<Rightarrow> Inl e | Inr s' \<Rightarrow> bd_steps ds s')"

subsection \<open>PwConstantProcess\<close>

record PwConstantProcess =
  pw_phase_lengths :: "int list"
  pw_values :: "real list"
  pw_seasonal :: bool
  pw_t :: nat
  pw_phase :: nat
  pw_value :: real

text \<open>The constructor reads \<open>values[0]\<close>, which raises on an empty list.\<close>

definition PwConstantProcess_init ::
  "int list \<Rightarrow> real list \<Rightarrow> bool \<Rightarrow> error + PwConstantProcess" where
  "PwConstantProcess_init phase_lengths vals seasonal =
     (case vals of
        [] \<Rightarrow> Inl IndexError
      | v # _ \<Rightarrow> Inr \<lparr>pw_phase_lengths = phase_lengths, pw_values = vals,
                       pw_seasonal = seasonal, pw_t = 0, pw_phase = 0, pw_value = v\<rparr>)"

text \<open>
  \<open>step\<close>: the reads \<open>phase_lengths[phase]\<close> and \<open>values[phase]\<close> raise IndexError
  out of range (the phase is never negative, so Python's negative indexing plays no part).
\<close>

definition pw_step :: "PwConstantProcess \<Rightarrow> error + PwConstantProcess" where
  "pw_step s =
     (let t1 = pw_t s + 1 in
      if pw_phase s < length (pw_phase_lengths s) then
        (if int t1 > pw_phase_lengths s ! pw_phase s then
           (let ph1 = pw_phase s + 1;
                ph2 = (if pw_seasonal s \<and> int ph1 > int (length (pw_values s)) - 1
                       then 0 else ph1)
            in if ph2 < length (pw_values s)
               then Inr (s\<lparr>pw_t := 0, pw_phase := ph2, pw_value := pw_values s ! ph2\<rparr>)
               else Inl IndexError)
         else Inr (s\<lparr>pw_t := t1\<rparr>))
      else Inl IndexError)"

definition pw_get :: "PwConstantProcess \<Rightarrow> real" where
  "pw_get s = pw_value s"

fun pw_steps :: "nat \<Rightarrow> PwConstantProcess \<Rightarrow> error + PwConstantProcess" where
  "pw_steps 0 s = Inr s"
| "pw_steps (Suc n) s = (case pw_step s of Inl e \<Rightarrow> Inl e | Inr s' \<Rightarrow> pw_steps n s')"

text \<open>What \<open>get()\<close> returns at tick \<open>n\<close> (after \<open>n\<close> steps), or the exception raised on the way.\<close>

definition pw_at :: "nat \<Rightarrow> PwConstantProcess \<Rightarrow> error + real" where
  "pw_at n s = (case pw_steps n s of Inl e \<Rightarrow> Inl e | Inr s' \<Rightarrow> Inr (pw_get s'))"

text \<open>Construction followed by \<open>n\<close> steps and a \<open>get()\<close>.\<close>

definition pw_run :: "int list \<Rightarrow> real list \<Rightarrow> bool \<Rightarrow> nat \<Rightarrow> error + real" where
  "pw_run phase_lengths vals seasonal n =
     (case PwConstantProcess_init phase_lengths vals seasonal of
        Inl e \<Rightarrow> Inl e
      | Inr s \<Rightarrow> pw_at n s)"

subsection \<open>OnOffProcess\<close>

text \<open>
  One step reads one \<open>random()\<close> draw and the current value of one of the two
  probability processes (both are in \<open>onoff_draw\<close>; the step uses the one its branch reads).
\<close>

record OnOffProcess =
  oo_value :: int

record onoff_draw =
  oo_random :: real
  on_to_off_get :: real
  off_to_on_get :: real

definition OnOffProcess_init :: OnOffProcess where
  "OnOffProcess_init = \<lparr>oo_value = 0\<rparr>"

definition onoff_step :: "onoff_draw \<Rightarrow> OnOffProcess \<Rightarrow> OnOffProcess" where
  "onoff_step d s =
     (if oo_value s = 0
      then (if oo_random d < off_to_on_get d then s\<lparr>oo_value := 1\<rparr> else s)
      else (if oo_random d < on_to_off_get d then s\<lparr>oo_value := 0\<rparr> else s))"

definition onoff_get :: "OnOffProcess \<Rightarrow> int" where
  "onoff_get s = oo_value s"

fun onoff_steps :: "onoff_draw list \<Rightarrow> OnOffProcess \<Rightarrow> OnOffProcess" where
  "onoff_steps [] s = s"
| "onoff_steps (d # ds) s = onoff_steps ds (onoff_step d s)"

section \<open>Devices (env_sim.py)\<close>

text \<open>
  A reading is \<open>Some v\<close> or \<open>None\<close> (Python's \<open>None\<close>: no reading this tick).
  A \<open>Measurement\<close> is stateless; what its \<open>get()\<close> returns depends on a process and
  on a distortion that may draw noise, so the values it returns during one step are part
  of the step's \<open>sample\<close>, next to the \<open>random()\<close> draw of \<open>BasicDevice.step\<close>:
  \<open>meas_first\<close> is the call in the \<open>p_skip == 0\<close> branch, \<open>meas_last\<close> the call in
  the last line.
\<close>

record sample =
  dev_random :: real
  meas_first :: real
  meas_last :: real

type_synonym tags = "(string \<times> string) list"

text \<open>
  \<open>Basic name p_skip value influx_meas tags\<close>,
  \<open>Doomed name base_device time_remaining\<close>,
  \<open>Sticky name base_device time_remaining value\<close>.
  A decorator holds its wrapped device.
\<close>

datatype device =
  Basic string real "real option" string tags
| Doomed string device int
| Sticky string device int "real option"

fun dev_get :: "device \<Rightarrow> real option" where
  "dev_get (Basic name p_skip v influx_meas tgs) = v"
| "dev_get (Doomed name base_device time_remaining) =
     (if time_remaining = 0 then None else dev_get base_device)"
| "dev_get (Sticky name base_device time_remaining v) = v"

fun get_influx_meas :: "device \<Rightarrow> string" where
  "get_influx_meas (Basic name p_skip v influx_meas tgs) = influx_meas"
| "get_influx_meas (Doomed name base_device time_remaining) = get_influx_meas base_device"
| "get_influx_meas (Sticky name base_device time_remaining v) = get_influx_meas base_device"

fun get_tags :: "device \<Rightarrow> tags" where
  "get_tags (Basic name p_skip v influx_meas tgs) = tgs"
| "get_tags (Doomed name base_device time_remaining) = get_tags base_device"
| "get_tags (Sticky name base_device time_remaining v) = get_tags base_device"

text \<open>The constructors; \<open>m\<close> is what \<open>measurement.get()\<close> returns at construction.\<close>

definition BasicDevice :: "string \<Rightarrow> real \<Rightarrow> real \<Rightarrow> string \<Rightarrow> tags \<Rightarrow> device" where
  "BasicDevice name m p_skip influx_meas influx_tags =
     Basic name p_skip (Some m) influx_meas influx_tags"

definition DoomedDevice :: "string \<Rightarrow> device \<Rightarrow> int \<Rightarrow> device" where
  "DoomedDevice name base_device lifetime = Doomed name base_device lifetime"

definition StickyDevice :: "string \<Rightarrow> device \<Rightarrow> int \<Rightarrow> device" where
  "StickyDevice name base_device lifetime =
     Sticky name base_device lifetime (dev_get base_device)"

fun dev_step :: "sample \<Rightarrow> device \<Rightarrow> device" where
  "dev_step x (Basic name p_skip v influx_meas tgs) =
     (let v1 = (if p_skip = 0 then Some (meas_first x) else v);
          skip = (dev_random x < p_skip)
      in Basic name p_skip (if skip then None else Some (meas_last x)) influx_meas tgs)"
| "dev_step x (Doomed name base_device time_remaining) =
     (let b = dev_step x base_device
      in Doomed name b (if time_remaining > 0 then time_remaining - 1 else time_remaining))"
| "dev_step x (Sticky name base_device time_remaining v) =
     (let b = dev_step x base_device
      in if time_remaining > 0 then Sticky name b (time_remaining - 1) (dev_get b)
         else Sticky name b time_remaining v)"

fun dev_steps :: "sample list \<Rightarrow> device \<Rightarrow> device" where
  "dev_steps [] d = d"
| "dev_steps (x # xs) d = dev_steps xs (dev_step x d)"

section \<open>Environment (env_sim.py)\<close>

text \<open>
  The device registry is a Python set; the list is that set in the order the loops
  iterate it. \<open>draws k i\<close> is the sample of the device at position \<open>i\<close> in tick \<open>k\<close>.
  The processes' steps reach the devices only through the measurement values,
  which are in the samples.
\<close>

record point =
  pt_measurement :: string
  pt_value :: real
  pt_tags :: tags

text \<open>
  The write API of the live sink is the list of (bucket, record) pairs written so far.
\<close>

definition write_device ::
  "device \<Rightarrow> string \<Rightarrow> (string \<times> point) list \<Rightarrow> (string \<times> point) list" where
  "write_device d bucket written =
     (case dev_get d of
        None \<Rightarrow> written
      | Some v \<Rightarrow>
          written @ [(bucket, \<lparr>pt_measurement = get_influx_meas d, pt_value = v,
                                 pt_tags = get_tags d\<rparr>)])"

text \<open>The inner device loop of \<open>run_influx\<close>: step, then \<open>write_device\<close>.\<close>

fun influx_devices ::
  "(nat \<Rightarrow> sample) \<Rightarrow> string \<Rightarrow> nat \<Rightarrow> device list \<Rightarrow> (string \<times> point) list
     \<Rightarrow> device list \<times> (string \<times> point) list" where
  "influx_devices dr bucket i [] written = ([], written)"
| "influx_devices dr bucket i (d # ds) written =
     (let d1 = dev_step (dr i) d;
          w1 = write_device d1 bucket written;
          r = influx_devices dr bucket (Suc i) ds w1
      in (d1 # fst r, snd r))"

text \<open>
  \<open>run_influx\<close> loops forever; \<open>run_influx_ticks draws bucket k n\<close> is its iterations
  \<open>k, ..., k + n - 1\<close>.
\<close>

fun run_influx_ticks ::
  "(nat \<Rightarrow> nat \<Rightarrow> sample) \<Rightarrow> string \<Rightarrow> nat \<Rightarrow> nat \<Rightarrow> device list \<times> (string \<times> point) list
     \<Rightarrow> device list \<times> (string \<times> point) list" where
  "run_influx_ticks draws bucket k 0 env = env"
| "run_influx_ticks draws bucket k (Suc n) env =
     run_influx_ticks draws bucket (Suc k) n
       (influx_devices (draws k) bucket 0 (fst env) (snd env))"

text \<open>
  \<open>generate_data\<close> writes strings to a file; the file is the list of the strings
  written. \<open>str_float\<close> and \<open>str_time\<close> stand for Python's formatting of a float and of
  a datetime in an f-string; \<open>None\<close> is formatted as the text \<open>None\<close>. A time is a
  number of seconds. A tag lookup \<open>get_tags()['room_id']\<close> raises KeyError when the key
  is missing.
\<close>

definition str_reading :: "(real \<Rightarrow> string) \<Rightarrow> real option \<Rightarrow> string" where
  "str_reading str_float r = (case r of None \<Rightarrow> ''None'' | Some v \<Rightarrow> str_float v)"

definition tag_lookup :: "tags \<Rightarrow> string \<Rightarrow> error + string" where
  "tag_lookup tgs key = (case map_of tgs key of None \<Rightarrow> Inl KeyError | Some v \<Rightarrow> Inr v)"

definition csv_line ::
  "(real \<Rightarrow> string) \<Rightarrow> (int \<Rightarrow> string) \<Rightarrow> device \<Rightarrow> int \<Rightarrow> error + string" where
  "csv_line str_float str_time d time =
     (case tag_lookup (get_tags d) ''room_id'' of
        Inl e \<Rightarrow> Inl e
      | Inr room \<Rightarrow>
          (case tag_lookup (get_tags d) ''sensor_id'' of
             Inl e \<Rightarrow> Inl e
           | Inr sensor \<Rightarrow>
               Inr (get_influx_meas d @ '','' @ str_reading str_float (dev_get d) @ '',''
                    @ str_time time @ '','' @ room @ '','' @ sensor)))"

fun generate_devices ::
  "(real \<Rightarrow> string) \<Rightarrow> (int \<Rightarrow> string) \<Rightarrow> (nat \<Rightarrow> sample) \<Rightarrow> int \<Rightarrow> nat \<Rightarrow> device list
     \<Rightarrow> string list \<Rightarrow> error + device list \<times> string list" where
  "generate_devices str_float str_time dr time i [] file = Inr ([], file)"
| "generate_devices str_float str_time dr time i (d # ds) file =
     (let d1 = dev_step (dr i) d in
      case csv_line str_float str_time d1 time of
        Inl e \<Rightarrow> Inl e
      | Inr line \<Rightarrow>
          (case generate_devices str_float str_time dr time (Suc i) ds (file @ [line]) of
             Inl e \<Rightarrow> Inl e
           | Inr r \<Rightarrow> Inr (d1 # fst r, snd r)))"

fun generate_ticks ::
  "(real \<Rightarrow> string) \<Rightarrow> (int \<Rightarrow> string) \<Rightarrow> (nat \<Rightarrow> nat \<Rightarrow> sample) \<Rightarrow> int \<Rightarrow> nat \<Rightarrow> nat \<Rightarrow> int
     \<Rightarrow> device list \<times> string list \<Rightarrow> error + device list \<times> string list" where
  "generate_ticks str_float str_time draws dt k 0 time env = Inr env"
| "generate_ticks str_float str_time draws dt k (Suc n) time env =
     (case generate_devices str_float str_time (draws k) time 0 (fst env) (snd env) of
        Inl e \<Rightarrow> Inl e
      | Inr env1 \<Rightarrow> generate_ticks str_float str_time draws dt (Suc k) n (time + dt) env1)"

text \<open>\<open>range(steps)\<close> is empty for a negative \<open>steps\<close>; \<open>now\<close> is \<open>datetime.now()\<close>.\<close>

definition generate_data ::
  "(real \<Rightarrow> string) \<Rightarrow> (int \<Rightarrow> string) \<Rightarrow> (nat \<Rightarrow> nat \<Rightarrow> sample) \<Rightarrow> int \<Rightarrow> device list
     \<Rightarrow> int \<Rightarrow> int \<Rightarrow> error + device list \<times> string list" where
  "generate_data str_float str_time draws now devices steps dt =
     generate_ticks str_float str_time draws dt 0 (nat steps) now
       (devices, [''#datatype measurement,double,dateTime,tag,tag'',
                  ''m,value,time,room_id,sensor_id''])"

section \<open>Properties\<close>

subsection \<open>BirthDeathProcess and OnOffProcess\<close>

lemma bd_step_range:
  assumes "0 < bd_limit s" and "bd_step d s = Inr s'"
  shows "bd_limit s' = bd_limit s \<and> 0 \<le> bd_value s' \<and> bd_value s' \<le> bd_limit s"
  using assms by (auto simp: bd_step_def poisson_def Let_def split: if_splits)

lemma bd_steps_range_from:
  "0 < bd_limit s \<Longrightarrow> 0 \<le> bd_value s \<Longrightarrow> bd_value s \<le> bd_limit s \<Longrightarrow> bd_steps ds s = Inr s'
   \<Longrightarrow> bd_limit s' = bd_limit s \<and> 0 \<le> bd_value s' \<and> bd_value s' \<le> bd_limit s"
proof (induction ds arbitrary: s)
  case Nil
  then show ?case by simp
next
  case (Cons d ds)
  from Cons.prems(4) obtain s1 where s1: "bd_step d s = Inr s1" and rest: "bd_steps ds s1 = Inr s'"
    by (auto split: sum.splits)
  from bd_step_range[OF Cons.prems(1) s1] have r: "bd_limit s1 = bd_limit s" "0 \<le> bd_value s1" "bd_value s1 \<le> bd_limit s"
    by auto
  from Cons.IH[of s1] r rest Cons.prems(1) show ?case by simp
qed

lemma bd_step_total:
  "0 \<le> birth_rate_get d \<Longrightarrow> birth_rate_get d \<le> poisson_lam_max
   \<Longrightarrow> 0 \<le> death_rate_get d \<Longrightarrow> death_rate_get d \<le> poisson_lam_max
   \<Longrightarrow> \<exists>s'. bd_step d s = Inr s'"
  by (simp add: bd_step_def poisson_def Let_def)

lemma bd_step_raises:
  "birth_rate_get d < 0 \<or> poisson_lam_max < birth_rate_get d
   \<Longrightarrow> bd_step d s = Inl ValueError"
  by (auto simp: bd_step_def poisson_def)

lemma bd_steps_total:
  "\<forall>d\<in>set ds. 0 \<le> birth_rate_get d \<and> birth_rate_get d \<le> poisson_lam_max
              \<and> 0 \<le> death_rate_get d \<and> death_rate_get d \<le> poisson_lam_max
   \<Longrightarrow> \<exists>s'. bd_steps ds s = Inr s'"
proof (induction ds arbitrary: s)
  case Nil
  then show ?case by simp
next
  case (Cons d ds)
  then obtain s1 where "bd_step d s = Inr s1" using bd_step_total[of d s] by auto
  with Cons show ?case by auto
qed

text \<open>
  C1 (as amended). For a BirthDeathProcess constructed with \<open>limit = L > 0\<close>: after at
  least one \<open>step()\<close>, or after any number of steps (also none) when the constructor's
  \<open>init\<close> lies in \<open>0..L\<close>, \<open>get()\<close> returns a value \<open>v\<close> with \<open>0 \<le> v \<le> L\<close>,
  whatever the Poisson draws were; and the steps do return when every rate lies between
  0 and numpy's bound \<open>poisson_lam_max\<close> (outside this range the draw raises ValueError).
\<close>

theorem bd_value_in_range:
  assumes "0 < limit"
    and "ds \<noteq> [] \<or> (0 \<le> init \<and> init \<le> limit)"
  shows "(\<forall>s'. bd_steps ds (BirthDeathProcess_init init limit) = Inr s'
            \<longrightarrow> 0 \<le> bd_get s' \<and> bd_get s' \<le> limit)
       \<and> ((\<forall>d\<in>set ds. 0 \<le> birth_rate_get d \<and> birth_rate_get d \<le> poisson_lam_max
                       \<and> 0 \<le> death_rate_get d \<and> death_rate_get d \<le> poisson_lam_max)
            \<longrightarrow> (\<exists>s'. bd_steps ds (BirthDeathProcess_init init limit) = Inr s'))"
proof -
  let ?s0 = "BirthDeathProcess_init init limit"
  have lim: "bd_limit ?s0 = limit" "bd_value ?s0 = init" by (simp_all add: BirthDeathProcess_init_def)
  have range: "0 \<le> bd_get s' \<and> bd_get s' \<le> limit" if run: "bd_steps ds ?s0 = Inr s'" for s'
  proof (cases ds)
    case Nil
    with assms(2) run lim show ?thesis by (auto simp: bd_get_def)
  next
    case (Cons d ds')
    with run obtain s1 where s1: "bd_step d ?s0 = Inr s1" and rest: "bd_steps ds' s1 = Inr s'"
      by (auto split: sum.splits)
    from bd_step_range[of ?s0 d s1] s1 assms(1) lim
    have r: "bd_limit s1 = limit" "0 \<le> bd_value s1" "bd_value s1 \<le> limit" by auto
    from bd_steps_range_from[of s1 ds' s'] r rest assms(1) show ?thesis by (simp add: bd_get_def)
  qed
  have total: "\<exists>s'. bd_steps ds ?s0 = Inr s'"
    if "\<forall>d\<in>set ds. 0 \<le> birth_rate_get d \<and> birth_rate_get d \<le> poisson_lam_max
                  \<and> 0 \<le> death_rate_get d \<and> death_rate_get d \<le> poisson_lam_max"
    using that by (rule bd_steps_total)
  from range total show ?thesis by blast
qed

text \<open>
  The bound at a concrete run: \<open>init = 7\<close> above \<open>limit = 5\<close>, two steps.
\<close>

theorem bd_value_in_range_witness:
  "bd_steps [\<lparr>birth_rate_get = 2, birth_outcome = 4, death_rate_get = 1, death_outcome = 1\<rparr>,
             \<lparr>birth_rate_get = 2, birth_outcome = 0, death_rate_get = 1, death_outcome = 9\<rparr>]
     (BirthDeathProcess_init 7 5) = Inr \<lparr>bd_value = 0, bd_limit = 5\<rparr>
   \<and> 0 \<le> bd_get \<lparr>bd_value = 0, bd_limit = 5\<rparr> \<and> bd_get \<lparr>bd_value = 0, bd_limit = 5\<rparr> \<le> 5"
proof -
  have run: "bd_steps [\<lparr>birth_rate_get = 2, birth_outcome = 4, death_rate_get = 1, death_outcome = 1\<rparr>,
             \<lparr>birth_rate_get = 2, birth_outcome = 0, death_rate_get = 1, death_outcome = 9\<rparr>]
     (BirthDeathProcess_init 7 5) = Inr \<lparr>bd_value = 0, bd_limit = 5\<rparr>"
    by (simp add: bd_step_def poisson_def poisson_lam_max_def BirthDeathProcess_init_def Let_def)
  from bd_value_in_range[of 5 "[\<lparr>birth_rate_get = 2, birth_outcome = 4, death_rate_get = 1, death_outcome = 1\<rparr>,
             \<lparr>birth_rate_get = 2, birth_outcome = 0, death_rate_get = 1, death_outcome = 9\<rparr>]" 7] run
  show ?thesis by simp
qed

text \<open>
  C1 as stated fails for the empty sequence of steps: the constructor stores \<open>init\<close>
  unclamped, so \<open>BirthDeathProcess(b, d, init=7, limit=5).get()\<close> is 7.
\<close>

theorem bd_initial_value_counterexample:
  "bd_steps [] (BirthDeathProcess_init 7 5) = Inr (BirthDeathProcess_init 7 5)
   \<and> 0 < bd_limit (BirthDeathProcess_init 7 5)
   \<and> \<not> (0 \<le> bd_get (BirthDeathProcess_init 7 5)
          \<and> bd_get (BirthDeathProcess_init 7 5) \<le> bd_limit (BirthDeathProcess_init 7 5))"
  by (simp add: BirthDeathProcess_init_def bd_get_def)

text \<open>
  C10. An OnOffProcess starts at 0 (off), and after any sequence of \<open>step()\<close> calls,
  with any random draws and any probabilities, \<open>get()\<close> returns 0 or 1.
\<close>

theorem onoff_value_binary:
  "onoff_get OnOffProcess_init = 0
   \<and> (\<forall>ds. onoff_get (onoff_steps ds OnOffProcess_init) = 0
           \<or> onoff_get (onoff_steps ds OnOffProcess_init) = 1)"
proof -
  have step: "\<And>d s. oo_value s = 0 \<or> oo_value s = 1
                \<Longrightarrow> oo_value (onoff_step d s) = 0 \<or> oo_value (onoff_step d s) = 1"
    by (auto simp: onoff_step_def)
  have inv: "oo_value s = 0 \<or> oo_value s = 1
               \<Longrightarrow> oo_value (onoff_steps ds s) = 0 \<or> oo_value (onoff_steps ds s) = 1" for ds s
  proof (induction ds arbitrary: s)
    case Nil
    then show ?case by simp
  next
    case (Cons d ds)
    from Cons.IH[OF step[OF Cons.prems]] show ?case by simp
  qed
  show ?thesis using inv[of OnOffProcess_init] by (simp add: onoff_get_def OnOffProcess_init_def)
qed

subsection \<open>PwConstantProcess\<close>

lemma pw_steps_add:
  "pw_steps (m + n) s = (case pw_steps m s of Inl e \<Rightarrow> Inl e | Inr s' \<Rightarrow> pw_steps n s')"
  by (induction m arbitrary: s) (auto split: sum.splits)

lemma pw_steps_error:
  "pw_steps m s = Inl e \<Longrightarrow> pw_steps (m + n) s = Inl e"
  by (simp add: pw_steps_add)

text \<open>
  The general shape of a phase: entered with \<open>t = 0\<close>, a phase of length \<open>L \<ge> 0\<close>
  keeps its value during the next \<open>L\<close> steps, and step \<open>L + 1\<close> moves to the next phase.
\<close>

lemma pw_hold:
  assumes "pw_t s = 0" and "pw_phase s < length (pw_phase_lengths s)"
    and "int k \<le> pw_phase_lengths s ! pw_phase s"
  shows "pw_steps k s = Inr (s\<lparr>pw_t := k\<rparr>)"
  using assms
proof (induction k)
  case 0
  then show ?case by simp
next
  case (Suc k)
  then have "pw_steps k s = Inr (s\<lparr>pw_t := k\<rparr>)" by simp
  moreover have "pw_step (s\<lparr>pw_t := k\<rparr>) = Inr (s\<lparr>pw_t := Suc k\<rparr>)"
    using Suc.prems by (simp add: pw_step_def Let_def)
  ultimately show ?case
    using pw_steps_add[of k 1 s] by simp
qed

lemma pw_advance:
  assumes "pw_t s = 0" and "pw_phase s < length (pw_phase_lengths s)"
    and "0 \<le> pw_phase_lengths s ! pw_phase s"
    and "Suc (pw_phase s) < length (pw_values s)"
  shows "pw_steps (Suc (nat (pw_phase_lengths s ! pw_phase s))) s =
           Inr (s\<lparr>pw_t := 0, pw_phase := Suc (pw_phase s),
                   pw_value := pw_values s ! Suc (pw_phase s)\<rparr>)"
proof -
  let ?k = "nat (pw_phase_lengths s ! pw_phase s)"
  have "pw_steps ?k s = Inr (s\<lparr>pw_t := ?k\<rparr>)"
    using assms by (intro pw_hold) simp_all
  moreover have "pw_step (s\<lparr>pw_t := ?k\<rparr>) =
      Inr (s\<lparr>pw_t := 0, pw_phase := Suc (pw_phase s), pw_value := pw_values s ! Suc (pw_phase s)\<rparr>)"
    using assms by (simp add: pw_step_def Let_def)
  ultimately show ?thesis
    using pw_steps_add[of ?k 1 s] by simp
qed

lemma pw_example_init:
  "PwConstantProcess_init [3, 2] [10, 20] b =
     Inr \<lparr>pw_phase_lengths = [3, 2], pw_values = [10, 20], pw_seasonal = b,
          pw_t = 0, pw_phase = 0, pw_value = 10\<rparr>"
  by (simp add: PwConstantProcess_init_def)

lemma pw_example_cycle:
  "pw_steps 7 \<lparr>pw_phase_lengths = [3, 2], pw_values = [10, 20], pw_seasonal = True,
          pw_t = 0, pw_phase = 0, pw_value = 10\<rparr>
   = Inr \<lparr>pw_phase_lengths = [3, 2], pw_values = [10, 20], pw_seasonal = True,
          pw_t = 0, pw_phase = 0, pw_value = 10\<rparr>"
  by (simp add: eval_nat_numeral pw_step_def Let_def)

text \<open>
  C3. \<open>PwConstantProcess([3,2], [10,20], seasonal=True)\<close>: \<open>get()\<close> is 10 at ticks
  0 to 3, 20 at ticks 4 to 6, and back to 10 at tick 7; the second cycle (ticks 7 to 13)
  repeats the first, and the sequence of values has period 7 for ever.
\<close>

theorem pw_example_periodic:
  "map (pw_run [3, 2] [10, 20] True) [0..<15] =
     [Inr 10, Inr 10, Inr 10, Inr 10, Inr 20, Inr 20, Inr 20,
      Inr 10, Inr 10, Inr 10, Inr 10, Inr 20, Inr 20, Inr 20, Inr 10]
   \<and> (\<forall>n. pw_run [3, 2] [10, 20] True (n + 7) = pw_run [3, 2] [10, 20] True n)"
proof
  show "map (pw_run [3, 2] [10, 20] True) [0..<15] =
     [Inr 10, Inr 10, Inr 10, Inr 10, Inr 20, Inr 20, Inr 20,
      Inr 10, Inr 10, Inr 10, Inr 10, Inr 20, Inr 20, Inr 20, Inr 10]"
    by (simp add: pw_run_def pw_example_init pw_at_def upt_rec eval_nat_numeral pw_step_def Let_def pw_get_def)
  show "\<forall>n. pw_run [3, 2] [10, 20] True (n + 7) = pw_run [3, 2] [10, 20] True n"
  proof
    fix n
    have "pw_steps (7 + n) \<lparr>pw_phase_lengths = [3, 2], pw_values = [10, 20], pw_seasonal = True,
          pw_t = 0, pw_phase = 0, pw_value = 10\<rparr> = pw_steps n \<lparr>pw_phase_lengths = [3, 2], pw_values = [10, 20], pw_seasonal = True,
          pw_t = 0, pw_phase = 0, pw_value = 10\<rparr>"
      by (simp only: pw_steps_add pw_example_cycle sum.case)
    then show "pw_run [3, 2] [10, 20] True (n + 7) = pw_run [3, 2] [10, 20] True n"
      by (simp add: pw_run_def pw_example_init pw_at_def add.commute)
  qed
qed

text \<open>
  C2. The claim is that \<open>values[p]\<close> is reported for exactly \<open>phaseLengths[p]\<close> ticks.
  The code, at \<open>PwConstantProcess([3,2], [10,20], seasonal=True)\<close>, reports 10 for four
  ticks (phase length 3) and 20 for three ticks (phase length 2): the test
  \<open>t > phase_lengths[phase]\<close> lets every phase last one tick longer.
  The wrap to phase 0 takes place (tick 7).
\<close>

theorem pw_phase_held_one_tick_longer:
  "map (pw_run [3, 2] [10, 20] True) [0..<8] =
     [Inr 10, Inr 10, Inr 10, Inr 10, Inr 20, Inr 20, Inr 20, Inr 10]"
  by (simp add: pw_run_def pw_example_init pw_at_def upt_rec eval_nat_numeral pw_step_def Let_def pw_get_def)

text \<open>
  C4. The claim is that a non-seasonal process holds its last value once the phases are
  exhausted. The code, at \<open>PwConstantProcess([3,2], [10,20], seasonal=False)\<close>, reports
  20 at tick 6 and raises IndexError in the seventh \<open>step()\<close>, reading
  \<open>values[2]\<close>; no later tick is reached.
\<close>

theorem pw_non_seasonal_raises:
  "pw_run [3, 2] [10, 20] False 6 = Inr 20
   \<and> (\<forall>n. pw_run [3, 2] [10, 20] False (7 + n) = Inl IndexError)"
proof
  show "pw_run [3, 2] [10, 20] False 6 = Inr 20"
    by (simp add: pw_run_def pw_example_init pw_at_def eval_nat_numeral pw_step_def Let_def pw_get_def)
  have "pw_steps 7 \<lparr>pw_phase_lengths = [3, 2], pw_values = [10, 20], pw_seasonal = False,
          pw_t = 0, pw_phase = 0, pw_value = 10\<rparr> = Inl IndexError"
    by (simp add: eval_nat_numeral pw_step_def Let_def)
  then show "\<forall>n. pw_run [3, 2] [10, 20] False (7 + n) = Inl IndexError"
    by (simp add: pw_run_def pw_example_init pw_at_def pw_steps_error)
qed

subsection \<open>Devices and the environment\<close>

lemma dev_steps_append: "dev_steps (xs @ ys) d = dev_steps ys (dev_steps xs d)"
  by (induction xs arbitrary: d) simp_all

lemma sticky_frozen:
  "tr \<le> 0 \<Longrightarrow> dev_steps xs (Sticky n b tr v) = Sticky n (dev_steps xs b) tr v"
  by (induction xs arbitrary: b) (simp_all add: Let_def)

lemma doomed_dead:
  "tr \<le> 0 \<Longrightarrow> dev_steps xs (Doomed n b tr) = Doomed n (dev_steps xs b) tr"
  by (induction xs arbitrary: b) (simp_all add: Let_def)

lemma basic_skip_one:
  "xs \<noteq> [] \<Longrightarrow> \<forall>x\<in>set xs. dev_random x < 1 \<Longrightarrow>
     dev_steps xs (Basic n 1 v im tg) = Basic n 1 None im tg"
proof (induction xs arbitrary: v)
  case Nil
  then show ?case by simp
next
  case (Cons x xs)
  show ?case
  proof (cases xs)
    case Nil
    with Cons.prems show ?thesis by (simp add: Let_def)
  next
    case (Cons y ys)
    with Cons.IH[of None] Cons.prems show ?thesis by (simp add: Let_def)
  qed
qed

text \<open>
  C5. A StickyDevice with lifetime 2 around a device whose readings are 1, 2, 3, 4 at
  ticks 0 to 3: \<open>get()\<close> is 1 at construction, 2 after the first step, 3 after the
  second, and 3 after every longer sequence of steps. The wrapped device is stepped by
  every step of the decorator, and a refresh reads the wrapped device after its step.
\<close>

theorem sticky_lifetime_two:
  assumes "dev_get b = Some 1"
    and "dev_get (dev_steps [x1] b) = Some 2"
    and "dev_get (dev_steps [x1, x2] b) = Some 3"
    and "dev_get (dev_steps [x1, x2, x3] b) = Some 4"
  shows "dev_get (StickyDevice n b 2) = Some 1
       \<and> dev_get (dev_steps [x1] (StickyDevice n b 2)) = Some 2
       \<and> dev_get (dev_steps [x1, x2] (StickyDevice n b 2)) = Some 3
       \<and> (\<forall>xs. dev_steps (x1 # x2 # x3 # xs) (StickyDevice n b 2)
                  = Sticky n (dev_steps (x1 # x2 # x3 # xs) b) 0 (Some 3)
              \<and> dev_get (dev_steps (x1 # x2 # x3 # xs) (StickyDevice n b 2)) = Some 3)"
proof -
  have two: "dev_steps [x1, x2] (StickyDevice n b 2) = Sticky n (dev_steps [x1, x2] b) 0 (Some 3)"
    using assms(3) by (simp add: StickyDevice_def Let_def)
  have later: "dev_steps (x1 # x2 # ys) (StickyDevice n b 2)
                 = Sticky n (dev_steps (x1 # x2 # ys) b) 0 (Some 3)" for ys
    using dev_steps_append[of "[x1, x2]" ys "StickyDevice n b 2"]
      dev_steps_append[of "[x1, x2]" ys b] two
    by (simp add: sticky_frozen del: dev_steps.simps)
  show ?thesis
    using assms later by (simp add: StickyDevice_def Let_def)
qed

text \<open>
  C6. A DoomedDevice with lifetime 2 around a device that has readings at ticks 0 and 1:
  \<open>get()\<close> returns these readings at ticks 0 and 1; from tick 2 on the counter is 0
  and stays 0, and \<open>get()\<close> is absent whatever the wrapped device reads.
\<close>

theorem doomed_lifetime_two:
  assumes "dev_get b = Some v0"
    and "dev_get (dev_steps [x1] b) = Some v1"
  shows "dev_get (DoomedDevice n b 2) = Some v0
       \<and> dev_get (dev_steps [x1] (DoomedDevice n b 2)) = Some v1
       \<and> (\<forall>xs. dev_steps (x1 # x2 # xs) (DoomedDevice n b 2)
                  = Doomed n (dev_steps (x1 # x2 # xs) b) 0
              \<and> dev_get (dev_steps (x1 # x2 # xs) (DoomedDevice n b 2)) = None)"
proof -
  have two: "dev_steps [x1, x2] (DoomedDevice n b 2) = Doomed n (dev_steps [x1, x2] b) 0"
    by (simp add: DoomedDevice_def Let_def)
  have later: "dev_steps (x1 # x2 # ys) (DoomedDevice n b 2)
                 = Doomed n (dev_steps (x1 # x2 # ys) b) 0" for ys
    using dev_steps_append[of "[x1, x2]" ys "DoomedDevice n b 2"]
      dev_steps_append[of "[x1, x2]" ys b] two
    by (simp add: doomed_dead del: dev_steps.simps)
  show ?thesis
    using assms later by (simp add: DoomedDevice_def Let_def)
qed

text \<open>
  C7. A BasicDevice with \<open>p_skip = 1.0\<close>: after any non-empty sequence of steps whose
  \<open>random()\<close> draws lie in \<open>[0, 1)\<close>, \<open>get()\<close> is absent.
\<close>

theorem basic_p_skip_one_absent:
  assumes "xs \<noteq> []"
    and "\<forall>x\<in>set xs. 0 \<le> dev_random x \<and> dev_random x < 1"
  shows "dev_get (dev_steps xs (BasicDevice n m 1 im tg)) = None"
  using basic_skip_one[of xs n "Some m" im tg] assms by (simp add: BasicDevice_def)

text \<open>
  C9. Before the first step, \<open>get()\<close> of a BasicDevice returns the value the measurement
  had at construction, for every \<open>p_skip\<close>.
\<close>

theorem basic_initial_reading_present:
  "dev_get (BasicDevice n m p_skip im tg) = Some m"
  by (simp add: BasicDevice_def)

text \<open>
  The two sinks at a device without a reading: \<open>write_device\<close> leaves the sink as it
  is, \<open>csv_line\<close> produces a line.
\<close>

lemma write_device_absent: "dev_get d = None \<Longrightarrow> write_device d bucket written = written"
  by (simp add: write_device_def)

lemma csv_line_absent:
  "dev_get d = None \<Longrightarrow> map_of (get_tags d) ''room_id'' = Some r
   \<Longrightarrow> map_of (get_tags d) ''sensor_id'' = Some sn
   \<Longrightarrow> csv_line str_float str_time d time =
         Inr (get_influx_meas d @ '','' @ ''None'' @ '','' @ str_time time @ '','' @ r @ '','' @ sn)"
  by (simp add: csv_line_def tag_lookup_def str_reading_def)

text \<open>
  C8. The claim is that a device without a reading has nothing forwarded to the sink, in
  the live mode and in the batch mode. One tick with one BasicDevice of \<open>p_skip = 1\<close>
  and the draw 0.5: \<open>run_influx\<close> writes nothing, \<open>generate_data\<close> writes a line
  for the device, with the text \<open>None\<close> in the column the header declares as double.
\<close>

theorem batch_writes_absent_reading:
  "run_influx_ticks (\<lambda>k i. \<lparr>dev_random = 1 / 2, meas_first = 3, meas_last = 3\<rparr>) ''smart_uni'' 0 1
     ([BasicDevice ''people'' 3 1 ''n_people'' [(''room_id'', ''1''), (''sensor_id'', ''0'')]], [])
   = ([Basic ''people'' 1 None ''n_people'' [(''room_id'', ''1''), (''sensor_id'', ''0'')]], [])
   \<and> generate_data str_float str_time (\<lambda>k i. \<lparr>dev_random = 1 / 2, meas_first = 3, meas_last = 3\<rparr>) now
       [BasicDevice ''people'' 3 1 ''n_people'' [(''room_id'', ''1''), (''sensor_id'', ''0'')]] 1 dt
   = Inr ([Basic ''people'' 1 None ''n_people'' [(''room_id'', ''1''), (''sensor_id'', ''0'')]],
          [''#datatype measurement,double,dateTime,tag,tag'',
           ''m,value,time,room_id,sensor_id'',
           ''n_people,None,'' @ str_time now @ '',1,0''])"
  by (simp add: BasicDevice_def generate_data_def write_device_def csv_line_def tag_lookup_def
      str_reading_def Let_def)

text \<open>
  C5 at a wrapped BasicDevice that never skips and measures 1, 2, 3, 4, 5.
\<close>

theorem sticky_lifetime_two_witness:
  "dev_get (StickyDevice ''s'' (BasicDevice ''b'' 1 0 ''m'' []) 2) = Some 1
   \<and> dev_get (dev_steps [\<lparr>dev_random = 0, meas_first = 2, meas_last = 2\<rparr>]
        (StickyDevice ''s'' (BasicDevice ''b'' 1 0 ''m'' []) 2)) = Some 2
   \<and> dev_get (dev_steps [\<lparr>dev_random = 0, meas_first = 2, meas_last = 2\<rparr>,
                          \<lparr>dev_random = 0, meas_first = 3, meas_last = 3\<rparr>]
        (StickyDevice ''s'' (BasicDevice ''b'' 1 0 ''m'' []) 2)) = Some 3
   \<and> dev_get (dev_steps [\<lparr>dev_random = 0, meas_first = 2, meas_last = 2\<rparr>,
                          \<lparr>dev_random = 0, meas_first = 3, meas_last = 3\<rparr>,
                          \<lparr>dev_random = 0, meas_first = 4, meas_last = 4\<rparr>,
                          \<lparr>dev_random = 0, meas_first = 5, meas_last = 5\<rparr>]
        (StickyDevice ''s'' (BasicDevice ''b'' 1 0 ''m'' []) 2)) = Some 3"
  using sticky_lifetime_two[of "BasicDevice ''b'' 1 0 ''m'' []"
      "\<lparr>dev_random = 0, meas_first = 2, meas_last = 2\<rparr>"
      "\<lparr>dev_random = 0, meas_first = 3, meas_last = 3\<rparr>"
      "\<lparr>dev_random = 0, meas_first = 4, meas_last = 4\<rparr>" "''s''"]
  by (simp add: BasicDevice_def Let_def)

text \<open>
  C6 at a wrapped BasicDevice that never skips: at tick 2 the wrapped device reads 3,
  the DoomedDevice nothing.
\<close>

theorem doomed_lifetime_two_witness:
  "dev_get (DoomedDevice ''d'' (BasicDevice ''b'' 1 0 ''m'' []) 2) = Some 1
   \<and> dev_get (dev_steps [\<lparr>dev_random = 0, meas_first = 2, meas_last = 2\<rparr>]
        (DoomedDevice ''d'' (BasicDevice ''b'' 1 0 ''m'' []) 2)) = Some 2
   \<and> dev_get (dev_steps [\<lparr>dev_random = 0, meas_first = 2, meas_last = 2\<rparr>,
                          \<lparr>dev_random = 0, meas_first = 3, meas_last = 3\<rparr>]
        (BasicDevice ''b'' 1 0 ''m'' [])) = Some 3
   \<and> dev_get (dev_steps [\<lparr>dev_random = 0, meas_first = 2, meas_last = 2\<rparr>,
                          \<lparr>dev_random = 0, meas_first = 3, meas_last = 3\<rparr>]
        (DoomedDevice ''d'' (BasicDevice ''b'' 1 0 ''m'' []) 2)) = None"
  using doomed_lifetime_two[of "BasicDevice ''b'' 1 0 ''m'' []" 1
      "\<lparr>dev_random = 0, meas_first = 2, meas_last = 2\<rparr>" 2 "''d''"
      "\<lparr>dev_random = 0, meas_first = 3, meas_last = 3\<rparr>"]
  by (simp add: BasicDevice_def Let_def)

text \<open>
  C7 at two steps with the draws 0 and 0.9.
\<close>

theorem basic_p_skip_one_absent_witness:
  "dev_get (dev_steps [\<lparr>dev_random = 0, meas_first = 5, meas_last = 5\<rparr>,
                       \<lparr>dev_random = 9 / 10, meas_first = 6, meas_last = 6\<rparr>]
      (BasicDevice ''b'' 4 1 ''m'' [])) = None"
  using basic_p_skip_one_absent[of "[\<lparr>dev_random = 0, meas_first = 5, meas_last = 5\<rparr>,
                       \<lparr>dev_random = 9 / 10, meas_first = 6, meas_last = 6\<rparr>]" "''b''" 4 "''m''" "[]"]
  by simp

end
